theory Spec2Isabelle
  imports Main
begin

section \<open>Python strings\<close>

text \<open>
  A Python \<open>str\<close> is a sequence of Unicode code points, and \<open>len\<close> counts code
  points. A character is therefore modelled as its code point, a natural number, and a
  string as a list of them. Literals of the source that are plain ASCII are written with
  \<open>ascii\<close>; the few other characters of the source are given by their code points.
\<close>

type_synonym pychar = nat
type_synonym pystr = "pychar list"

definition ascii :: "string \<Rightarrow> pystr" where
  "ascii s = map of_char s"

text \<open>
  \<open>str.isspace\<close> on one character, which is also what \<open>str.split()\<close> without
  an argument splits on: the code points the interpreter classifies as whitespace.
\<close>

definition isspace :: "pychar \<Rightarrow> bool" where
  "isspace c \<longleftrightarrow>
     (9 \<le> c \<and> c \<le> 13) \<or> (28 \<le> c \<and> c \<le> 32) \<or> c = 133 \<or> c = 160 \<or> c = 5760 \<or>
     (8192 \<le> c \<and> c \<le> 8202) \<or> c = 8232 \<or> c = 8233 \<or> c = 8239 \<or> c = 8287 \<or>
     c = 12288"

text \<open>
  \<open>text.split()\<close>: the maximal runs of non-whitespace characters, in order. The
  scan keeps the word read so far in \<open>cur\<close>.
\<close>

fun split_from :: "pystr \<Rightarrow> pystr \<Rightarrow> pystr list" where
  "split_from cur [] = (if cur = [] then [] else [cur])"
| "split_from cur (c # cs) =
     (if isspace c then (if cur = [] then split_from [] cs else cur # split_from [] cs)
      else split_from (cur @ [c]) cs)"

definition py_split :: "pystr \<Rightarrow> pystr list" where
  "py_split s = split_from [] s"

text \<open>\<open>sep.join(words)\<close>.\<close>

fun py_join :: "pystr \<Rightarrow> pystr list \<Rightarrow> pystr" where
  "py_join sep [] = []"
| "py_join sep [w] = w"
| "py_join sep (w # v # ws) = w @ sep @ py_join sep (v # ws)"

section \<open>The tag pattern\<close>

text \<open>
  \<open>re.sub('<.*?>', '', text)\<close>. The pattern is compiled without flags, so \<open>.\<close>
  matches every character but the line feed (code point 10), and \<open>.*?\<close> is lazy: a
  match starts at a \<open><\<close> and ends at the first \<open>>\<close> after it, provided no line
  feed stands in between. \<open>find_close\<close> scans the text after a \<open><\<close> and returns
  what follows the closing \<open>>\<close>, or \<open>None\<close> when the pattern does not match there.
\<close>

fun find_close :: "pystr \<Rightarrow> pystr option" where
  "find_close [] = None"
| "find_close (c # cs) =
     (if c = 62 then Some cs else if c = 10 then None else find_close cs)"

lemma find_close_length: "find_close cs = Some r \<Longrightarrow> length r < Suc (length cs)"
  by (induction cs) (auto split: if_splits)

function strip_tags :: "pystr \<Rightarrow> pystr" where
  "strip_tags [] = []"
| "strip_tags (c # cs) =
     (if c = 60 then
        (case find_close cs of
           Some r \<Rightarrow> strip_tags r
         | None \<Rightarrow> c # strip_tags cs)
      else c # strip_tags cs)"
  by pat_completeness auto
termination
  by (relation "measure length") (auto dest: find_close_length)

section \<open>Decoding character references\<close>

text \<open>
  \<open>html.unescape\<close> of the standard library. Its pattern is
  \<^verbatim>\<open>&(#[0-9]+;?|#[xX][0-9a-fA-F]+;?|[^\t\n\f <&#;]{1,32};?)\<close>
  and every match is replaced by \<open>_replace_charref\<close> of its group. The table of
  named references \<open>html.entities.html5\<close> (2231 entries, data of the library) is the
  parameter \<open>html5\<close>; the two small tables of the numeric branch are written out.
  \<open>int\<close> is the unbounded conversion of a digit string (the limit some versions
  of the interpreter put on the number of decimal digits is not part of the model).
\<close>

type_synonym entity_table = "pystr \<rightharpoonup> pystr"

definition is_digit :: "pychar \<Rightarrow> bool" where
  "is_digit c \<longleftrightarrow> 48 \<le> c \<and> c \<le> 57"

definition is_hexdigit :: "pychar \<Rightarrow> bool" where
  "is_hexdigit c \<longleftrightarrow> is_digit c \<or> (65 \<le> c \<and> c \<le> 70) \<or> (97 \<le> c \<and> c \<le> 102)"

text \<open>The class \<^verbatim>\<open>[^\t\n\f <&#;]\<close>.\<close>

definition is_name_char :: "pychar \<Rightarrow> bool" where
  "is_name_char c \<longleftrightarrow> c \<notin> {9, 10, 12, 32, 60, 38, 35, 59}"

text \<open>The trailing \<^verbatim>\<open>;?\<close> of each alternative: greedy, so a semicolon is taken when present.\<close>

fun opt_semi :: "pystr \<Rightarrow> pystr \<Rightarrow> pystr \<times> pystr" where
  "opt_semi g [] = (g, [])"
| "opt_semi g (c # cs) = (if c = 59 then (g @ [59], cs) else (g, c # cs))"

text \<open>
  The pattern tried on the text after an ampersand: the group matched and the rest of
  the text, or \<open>None\<close>. The alternatives are tried in the pattern's order.
\<close>

definition match_charref :: "pystr \<Rightarrow> (pystr \<times> pystr) option" where
  "match_charref cs =
     (case cs of
        [] \<Rightarrow> None
      | c # ds \<Rightarrow>
          if c = 35 then
            (if takeWhile is_digit ds \<noteq> [] then
               Some (opt_semi (35 # takeWhile is_digit ds) (dropWhile is_digit ds))
             else
               (case ds of
                  [] \<Rightarrow> None
                | x # hs \<Rightarrow>
                    if (x = 120 \<or> x = 88) \<and> takeWhile is_hexdigit hs \<noteq> [] then
                      Some (opt_semi (35 # x # takeWhile is_hexdigit hs)
                              (dropWhile is_hexdigit hs))
                    else None))
          else
            (let name = takeWhile is_name_char (take 32 cs) in
             if name = [] then None
             else Some (opt_semi name (drop (length name) cs))))"

text \<open>\<open>s.rstrip(';')\<close>.\<close>

definition rstrip_semi :: "pystr \<Rightarrow> pystr" where
  "rstrip_semi s = rev (dropWhile (\<lambda>c. c = 59) (rev s))"

definition digit_value :: "pychar \<Rightarrow> nat" where
  "digit_value c =
     (if is_digit c then c - 48
      else if 65 \<le> c \<and> c \<le> 70 then c - 55
      else c - 87)"

text \<open>\<open>int(s, base)\<close> on a string of digits of that base.\<close>

definition int_of :: "nat \<Rightarrow> pystr \<Rightarrow> nat" where
  "int_of base s = foldl (\<lambda>n c. n * base + digit_value c) 0 s"

text \<open>\<open>_invalid_charrefs\<close>: the replacements of the HTML 5 standard.\<close>

definition invalid_charrefs :: "nat \<rightharpoonup> pystr" where
  "invalid_charrefs = map_of
     [(0, [65533]), (13, [13]), (128, [8364]), (129, [129]), (130, [8218]), (131, [402]),
      (132, [8222]), (133, [8230]), (134, [8224]), (135, [8225]), (136, [710]),
      (137, [8240]), (138, [352]), (139, [8249]), (140, [338]), (141, [141]),
      (142, [381]), (143, [143]), (144, [144]), (145, [8216]), (146, [8217]),
      (147, [8220]), (148, [8221]), (149, [8226]), (150, [8211]), (151, [8212]),
      (152, [732]), (153, [8482]), (154, [353]), (155, [8250]), (156, [339]),
      (157, [157]), (158, [382]), (159, [376])]"

text \<open>\<open>_invalid_codepoints\<close>.\<close>

definition invalid_codepoints :: "nat \<Rightarrow> bool" where
  "invalid_codepoints n \<longleftrightarrow>
     (1 \<le> n \<and> n \<le> 8) \<or> (14 \<le> n \<and> n \<le> 31) \<or> (127 \<le> n \<and> n \<le> 159) \<or>
     (64976 \<le> n \<and> n \<le> 65007) \<or> n = 11 \<or>
     (n \<le> 1114111 \<and> 65534 \<le> n \<and> (n mod 65536 = 65534 \<or> n mod 65536 = 65535))"

text \<open>
  The loop \<open>for x in range(len(s)-1, 1, -1)\<close> of the named branch: the longest proper
  prefix of at least two characters that is in the table.
\<close>

fun longest_prefix :: "entity_table \<Rightarrow> pystr \<Rightarrow> nat \<Rightarrow> pystr option" where
  "longest_prefix html5 s 0 = None"
| "longest_prefix html5 s (Suc x) =
     (if Suc x \<le> 1 then None
      else (case html5 (take (Suc x) s) of
              Some v \<Rightarrow> Some (v @ drop (Suc x) s)
            | None \<Rightarrow> longest_prefix html5 s x))"

definition replace_charref :: "entity_table \<Rightarrow> pystr \<Rightarrow> pystr" where
  "replace_charref html5 s =
     (if hd s = 35 then
        (let num = (if s ! 1 = 120 \<or> s ! 1 = 88 then int_of 16 (rstrip_semi (drop 2 s))
                    else int_of 10 (rstrip_semi (drop 1 s)))
         in case invalid_charrefs num of
              Some r \<Rightarrow> r
            | None \<Rightarrow>
                if (55296 \<le> num \<and> num \<le> 57343) \<or> num > 1114111 then [65533]
                else if invalid_codepoints num then []
                else [num])
      else
        (case html5 s of
           Some r \<Rightarrow> r
         | None \<Rightarrow>
             (case longest_prefix html5 s (length s - 1) of
                Some r \<Rightarrow> r
              | None \<Rightarrow> 38 # s)))"

lemma opt_semi_length: "opt_semi g cs = (g', r) \<Longrightarrow> length r \<le> length cs"
  by (cases cs) (auto split: if_splits)

lemma match_charref_length:
  assumes "match_charref cs = Some (g, r)"
  shows "length r < Suc (length cs)"
proof (cases cs)
  case Nil
  with assms show ?thesis by (simp add: match_charref_def)
next
  case (Cons c ds)
  show ?thesis
  proof (cases "c = 35")
    case hash: True
    show ?thesis
    proof (cases "takeWhile is_digit ds = []")
      case False
      with assms Cons hash have "opt_semi (35 # takeWhile is_digit ds) (dropWhile is_digit ds) = (g, r)"
        by (simp add: match_charref_def)
      from opt_semi_length [OF this] have "length r \<le> length ds"
        by (rule le_trans) (rule length_dropWhile_le)
      with Cons show ?thesis by simp
    next
      case True
      with assms Cons hash obtain x hs where ds: "ds = x # hs"
        and m: "opt_semi (35 # x # takeWhile is_hexdigit hs) (dropWhile is_hexdigit hs) = (g, r)"
        by (auto simp: match_charref_def split: list.splits if_splits)
      from opt_semi_length [OF m] have "length r \<le> length hs"
        by (rule le_trans) (rule length_dropWhile_le)
      with Cons ds show ?thesis by simp
    qed
  next
    case False
    define name where "name = takeWhile is_name_char (take 32 cs)"
    from assms Cons False have "opt_semi name (drop (length name) cs) = (g, r)"
      by (auto simp: match_charref_def name_def Let_def split: if_splits)
    from opt_semi_length [OF this] show ?thesis by simp
  qed
qed

function charref_sub :: "entity_table \<Rightarrow> pystr \<Rightarrow> pystr" where
  "charref_sub html5 [] = []"
| "charref_sub html5 (c # cs) =
     (if c = 38 then
        (case match_charref cs of
           Some (g, r) \<Rightarrow> replace_charref html5 g @ charref_sub html5 r
         | None \<Rightarrow> c # charref_sub html5 cs)
      else c # charref_sub html5 cs)"
  by pat_completeness auto
termination
  by (relation "measure (\<lambda>(t, s). length s)") (auto dest: match_charref_length)

definition unescape :: "entity_table \<Rightarrow> pystr \<Rightarrow> pystr" where
  "unescape html5 s = (if 38 \<notin> set s then s else charref_sub html5 s)"

section \<open>The text sanitizer\<close>

text \<open>\<open>CityAMExtractor.clean_html\<close>.\<close>

definition clean_html :: "entity_table \<Rightarrow> pystr \<Rightarrow> pystr" where
  "clean_html html5 text =
     (if text = [] then []
      else py_join [32] (py_split (unescape html5 (strip_tags text))))"

section \<open>Dates and numbers as text\<close>

text \<open>\<open>str(n)\<close> for a natural number, as an f-string writes it.\<close>

function str_nat :: "nat \<Rightarrow> pystr" where
  "str_nat n = (if n < 10 then [48 + n] else str_nat (n div 10) @ [48 + n mod 10])"
  by pat_completeness auto
termination
  by (relation "measure id") auto

declare str_nat.simps [simp del]

definition zfill :: "nat \<Rightarrow> nat \<Rightarrow> pystr" where
  "zfill width n = replicate (width - length (str_nat n)) 48 @ str_nat n"

text \<open>
  What \<open>datetime.now()\<close> returns, as far as the program reads it. The month of a
  \<open>datetime\<close> is within 1 to 12.
\<close>

record datetime =
  year :: nat
  month :: nat
  day :: nat
  hour :: nat
  minute :: nat

definition month_name :: "nat \<Rightarrow> pystr" where
  "month_name m =
     (if 1 \<le> m \<and> m \<le> 12 then
        map ascii [''January'', ''February'', ''March'', ''April'', ''May'', ''June'', ''July'',
          ''August'', ''September'', ''October'', ''November'', ''December''] ! (m - 1)
      else [])"

text \<open>
  \<open>strftime\<close> with the directives the program uses: \<open>%Y\<close>, \<open>%m\<close>, \<open>%d\<close>,
  \<open>%H\<close>, \<open>%M\<close> and \<open>%B\<close>; every other character of the format is copied.
\<close>

definition directive :: "datetime \<Rightarrow> pychar \<Rightarrow> pystr" where
  "directive t x =
     (if x = 89 then zfill 4 (year t)
      else if x = 109 then zfill 2 (month t)
      else if x = 100 then zfill 2 (day t)
      else if x = 72 then zfill 2 (hour t)
      else if x = 77 then zfill 2 (minute t)
      else if x = 66 then month_name (month t)
      else [37, x])"

fun strftime :: "datetime \<Rightarrow> pystr \<Rightarrow> pystr" where
  "strftime t [] = []"
| "strftime t [c] = [c]"
| "strftime t (c # x # cs) =
     (if c = 37 then directive t x @ strftime t cs else c # strftime t (x # cs))"

section \<open>Exceptions, the world and the environment\<close>

text \<open>
  The exceptions of the program, all subclasses of \<open>Exception\<close>: the
  \<open>ValueError\<close> it raises itself, the \<open>OSError\<close> of a failed \<open>open\<close>, and
  whatever \<open>feedparser.parse\<close> raises, kept as its class name and its message.
\<close>

datatype py_exception =
    ValueError pystr
  | OSError pystr
  | LibraryError string pystr

fun exception_class :: "py_exception \<Rightarrow> string" where
  "exception_class (ValueError m) = ''ValueError''"
| "exception_class (OSError m) = ''OSError''"
| "exception_class (LibraryError c m) = c"

text \<open>\<open>str(e)\<close>, as the f-strings of the handlers write the exception.\<close>

fun exception_str :: "py_exception \<Rightarrow> pystr" where
  "exception_str (ValueError m) = m"
| "exception_str (OSError m) = m"
| "exception_str (LibraryError c m) = m"

text \<open>
  The raw feed as \<open>feedparser.parse\<close> delivers it. An entry is read with
  \<open>entry.get(key, default)\<close> only, so every key is an optional field.
\<close>

record tag =
  tag_term :: pystr

record entry =
  entry_title :: "pystr option"
  entry_summary :: "pystr option"
  entry_description :: "pystr option"
  entry_link :: "pystr option"
  entry_published :: "pystr option"
  entry_author :: "pystr option"
  entry_tags :: "tag list option"

record feed_meta =
  meta_title :: "pystr option"
  meta_description :: "pystr option"
  meta_updated :: "pystr option"

record parsed_feed =
  bozo :: bool
  bozo_exception :: py_exception
  entries :: "entry list"
  feed :: feed_meta

datatype parse_outcome = Parsed parsed_feed | Raises py_exception

text \<open>
  What the program does not decide: the table of named character references of the
  library, the answer of \<open>feedparser.parse\<close> for a URL (a parsed feed or an
  exception), the successive readings of the clock, and the message the operating system
  gives when it refuses to open a path for writing.
\<close>

record env =
  html5 :: entity_table
  feedparser_parse :: "pystr \<Rightarrow> parse_outcome"
  clock :: "nat \<Rightarrow> datetime"
  open_error :: "pystr \<Rightarrow> pystr"

text \<open>
  What the program changes: the directories and files of the file system, the lines
  printed, the URLs requested from the network, and the number of clock readings taken.
\<close>

record world =
  dirs :: "pystr set"
  files :: "pystr \<rightharpoonup> pystr"
  stdout :: "pystr list"
  requests :: "pystr list"
  ticks :: nat

definition py_print :: "pystr \<Rightarrow> world \<Rightarrow> world" where
  "py_print line w = w\<lparr>stdout := stdout w @ [line]\<rparr>"

definition datetime_now :: "env \<Rightarrow> world \<Rightarrow> datetime \<times> world" where
  "datetime_now e w = (clock e (ticks w), w\<lparr>ticks := Suc (ticks w)\<rparr>)"

definition parse_url :: "env \<Rightarrow> pystr \<Rightarrow> world \<Rightarrow> parse_outcome \<times> world" where
  "parse_url e url w = (feedparser_parse e url, w\<lparr>requests := requests w @ [url]\<rparr>)"

text \<open>\<open>d.get(key, default)\<close> on an optional field.\<close>

fun get_default :: "'a option \<Rightarrow> 'a \<Rightarrow> 'a" where
  "get_default None d = d"
| "get_default (Some v) d = v"

text \<open>The slice \<open>xs[:n]\<close>; a negative \<open>n\<close> counts from the end.\<close>

definition slice_to :: "int \<Rightarrow> 'a list \<Rightarrow> 'a list" where
  "slice_to n xs = (if 0 \<le> n then take (nat n) xs else take (length xs - nat (- n)) xs)"

subsection \<open>The file system\<close>

definition path_exists :: "pystr \<Rightarrow> world \<Rightarrow> bool" where
  "path_exists p w \<longleftrightarrow> p \<in> dirs w \<or> files w p \<noteq> None"

definition makedirs :: "pystr \<Rightarrow> world \<Rightarrow> world" where
  "makedirs p w = w\<lparr>dirs := insert p (dirs w)\<rparr>"

text \<open>\<open>os.path.join\<close> of two components.\<close>

definition path_join :: "pystr \<Rightarrow> pystr \<Rightarrow> pystr" where
  "path_join a b =
     (if b \<noteq> [] \<and> hd b = 47 then b
      else if a = [] \<or> last a = 47 then a @ b
      else a @ [47] @ b)"

text \<open>\<open>os.path.basename\<close>: what follows the last slash.\<close>

definition basename :: "pystr \<Rightarrow> pystr" where
  "basename p = rev (takeWhile (\<lambda>c. c \<noteq> 47) (rev p))"

text \<open>
  \<open>os.path.dirname\<close>: what precedes the last slash, without the slashes at its end
  unless it consists of slashes only.
\<close>

definition dirname :: "pystr \<Rightarrow> pystr" where
  "dirname p =
     (let head = rev (dropWhile (\<lambda>c. c \<noteq> 47) (rev p)) in
      if head \<noteq> [] \<and> head \<noteq> replicate (length head) 47
      then rev (dropWhile (\<lambda>c. c = 47) (rev head)) else head)"

text \<open>
  \<open>with open(path, 'w', encoding='utf-8') as f: f.write(content)\<close>. Opening fails
  with an \<open>OSError\<close> when the path names a directory or its directory does not exist
  (the empty directory name is the working directory); otherwise the file holds exactly
  the content afterwards.
\<close>

definition write_text :: "env \<Rightarrow> pystr \<Rightarrow> pystr \<Rightarrow> world \<Rightarrow> py_exception + world" where
  "write_text e path content w =
     (if path \<in> dirs w \<or> (dirname path \<noteq> [] \<and> dirname path \<notin> dirs w)
      then Inl (OSError (open_error e path))
      else Inr (w\<lparr>files := (files w)(path \<mapsto> content)\<rparr>))"

section \<open>The extractor\<close>

text \<open>The fields \<open>__init__\<close> sets on \<open>self\<close>.\<close>

record extractor =
  rss_feeds :: "(pystr \<times> pystr) list"
  base_url :: pystr
  output_dir :: pystr

text \<open>\<open>CityAMExtractor.ensure_output_dir\<close>.\<close>

definition ensure_output_dir :: "extractor \<Rightarrow> world \<Rightarrow> world" where
  "ensure_output_dir self w =
     (if \<not> path_exists (output_dir self) w then makedirs (output_dir self) w else w)"

text \<open>\<open>CityAMExtractor.__init__\<close>.\<close>

definition init :: "world \<Rightarrow> extractor \<times> world" where
  "init w =
     (let self = \<lparr>rss_feeds =
                   [(ascii ''news'', ascii ''https://www.cityam.com/news/rss''),
                    (ascii ''business'', ascii ''https://www.cityam.com/news/feed'')],
                 base_url = ascii ''https://www.cityam.com'',
                 output_dir = ascii ''summaries''\<rparr>
      in (self, ensure_output_dir self w))"

subsection \<open>Articles\<close>

record article =
  title :: pystr
  link :: pystr
  summary :: pystr
  published :: pystr
  author :: pystr
  categories :: "pystr list"

record feed_result =
  feed_title :: pystr
  feed_description :: pystr
  last_updated :: pystr
  articles :: "article list"

text \<open>The limit on the summary: lines 71 and 72 of the source.\<close>

definition limit_summary :: "pystr \<Rightarrow> pystr" where
  "limit_summary s = (if length s > 300 then take 297 s @ ascii ''...'' else s)"

text \<open>The body of the loop over the entries: the article built from one entry.\<close>

definition make_article :: "entity_table \<Rightarrow> entry \<Rightarrow> article" where
  "make_article t e =
     (let title = clean_html t (get_default (entry_title e) (ascii ''No title''));
          summary = clean_html t
            (get_default (entry_summary e) (get_default (entry_description e) []));
          summary = limit_summary summary
      in \<lparr>title = title,
          link = get_default (entry_link e) [],
          summary = summary,
          published = get_default (entry_published e) [],
          author = get_default (entry_author e) (ascii ''City A.M.''),
          categories = map tag_term (get_default (entry_tags e) [])\<rparr>)"

text \<open>
  The loop \<open>for entry in feed.entries[:max_articles]\<close>, with the list \<open>articles\<close>
  it appends to.
\<close>

fun append_articles :: "entity_table \<Rightarrow> article list \<Rightarrow> entry list \<Rightarrow> article list" where
  "append_articles t arts [] = arts"
| "append_articles t arts (e # es) = append_articles t (arts @ [make_article t e]) es"

definition select_articles :: "entity_table \<Rightarrow> entry list \<Rightarrow> int \<Rightarrow> article list" where
  "select_articles t es max_articles = append_articles t [] (slice_to max_articles es)"

text \<open>
  \<open>CityAMExtractor.extract_articles\<close>. The result is the exception that leaves the
  method, or what it returns: a feed result or \<open>None\<close>.
\<close>

definition extract_articles ::
  "env \<Rightarrow> extractor \<Rightarrow> pystr \<Rightarrow> int \<Rightarrow> world \<Rightarrow> (py_exception + feed_result option) \<times> world"
where
  "extract_articles e self feed_name max_articles w =
     (case map_of (rss_feeds self) feed_name of
        None \<Rightarrow> (Inl (ValueError (ascii ''Unknown feed: '' @ feed_name)), w)
      | Some feed_url \<Rightarrow>
          if feed_url = [] then (Inl (ValueError (ascii ''Unknown feed: '' @ feed_name)), w)
          else
            (let w1 = py_print (ascii ''Fetching content from: '' @ feed_url) w;
                 (outcome, w2) = parse_url e feed_url w1
             in case outcome of
                  Raises ex \<Rightarrow>
                    (Inr None,
                     py_print (ascii ''Error extracting from feed '' @ feed_url @ ascii '': '' @
                       exception_str ex) w2)
                | Parsed f \<Rightarrow>
                    (let w3 = (if bozo f then
                                 py_print (ascii ''Warning: Feed parsing issues - '' @
                                   exception_str (bozo_exception f)) w2
                               else w2)
                     in if entries f = [] then
                          (Inr None, py_print (ascii ''No articles found in feed'') w3)
                        else
                          (let articles = select_articles (html5 e) (entries f) max_articles;
                               w4 = py_print (ascii ''Successfully extracted '' @
                                      str_nat (length articles) @ ascii '' articles'') w3
                           in (Inr (Some
                                 \<lparr>feed_title = get_default (meta_title (feed f))
                                                 (ascii ''City A.M. News''),
                                  feed_description = get_default (meta_description (feed f)) [],
                                  last_updated = get_default (meta_updated (feed f)) [],
                                  articles = articles\<rparr>), w4)))))"

subsection \<open>The document\<close>

definition post_header :: "pystr \<Rightarrow> pystr" where
  "post_header today =
     ascii ''# Daily Business News Summary - '' @ today @ ascii ''\<newline>'' @
     ascii ''*Curated from City A.M. Business News*\<newline>'' @
     ascii ''\<newline>'' @
     ascii ''---\<newline>'' @
     ascii ''\<newline>'' @
     ascii ''Good morning! Here'' @ [39] @ ascii ''s your daily roundup of the top business '' @
     ascii ''stories from City A.M., London'' @ [39] @ ascii ''s leading business newspaper.\<newline>'' @
     ascii ''\<newline>''"

definition categories_text :: "article \<Rightarrow> pystr" where
  "categories_text a =
     (if categories a \<noteq> [] then py_join (ascii '', '') (categories a)
      else ascii ''Business News'')"

definition post_section :: "nat \<Rightarrow> article \<Rightarrow> pystr" where
  "post_section i a =
     ascii ''## '' @ str_nat i @ ascii ''. '' @ title a @ ascii ''\<newline>'' @
     ascii ''\<newline>'' @
     ascii ''**Summary**: '' @ summary a @ ascii ''\<newline>'' @
     ascii ''\<newline>'' @
     ascii ''**Categories**: '' @ categories_text a @ ascii ''\<newline>'' @
     ascii ''\<newline>'' @
     ascii ''**[Read the full article at City A.M.]('' @ link a @ ascii '')**\<newline>'' @
     ascii ''\<newline>'' @
     ascii ''---\<newline>'' @
     ascii ''\<newline>''"

definition post_footer :: "extractor \<Rightarrow> pystr \<Rightarrow> pystr \<Rightarrow> pystr \<Rightarrow> pystr" where
  "post_footer self blog_name author_name stamp =
     ascii ''\<newline>'' @
     ascii ''## About This Summary\<newline>'' @
     ascii ''\<newline>'' @
     ascii ''This daily summary is automatically curated from [City A.M.]('' @ base_url self @
     ascii ''), London'' @ [39] @ ascii ''s premier business newspaper. All original reporting '' @
     ascii ''and content rights belong to City A.M. \<newline>'' @
     ascii ''\<newline>'' @
     ascii ''*Summary compiled by '' @ author_name @ ascii '' for '' @ blog_name @
     ascii '' | Original content '' @ [169] @ ascii '' City A.M.*\<newline>'' @
     ascii ''\<newline>'' @
     ascii ''**Want to stay updated?** \<newline>'' @
     ascii ''- Visit [City A.M.]('' @ base_url self @ ascii '') for complete coverage\<newline>'' @
     ascii ''- Download their [free mobile app](https://www.cityam.com/apps/)\<newline>'' @
     ascii ''- Subscribe to their newsletters\<newline>'' @
     ascii ''\<newline>'' @
     ascii ''---\<newline>'' @
     ascii ''*Disclaimer: This is a curated summary for informational purposes. Please visit '' @
     ascii ''the original articles for complete reporting and context.*\<newline>'' @
     ascii ''\<newline>'' @
     ascii ''*Last updated: '' @ stamp @ ascii ''*\<newline>''"

text \<open>
  The loop \<open>for i, article in enumerate(feed_data['articles'], 1)\<close>, with the text
  \<open>post\<close> it extends and the counter of \<open>enumerate\<close>.
\<close>

fun add_sections :: "pystr \<Rightarrow> nat \<Rightarrow> article list \<Rightarrow> pystr" where
  "add_sections post i [] = post"
| "add_sections post i (a # as) = add_sections (post @ post_section i a) (Suc i) as"

definition no_articles_message :: pystr where
  "no_articles_message = ascii ''No articles available for summary.''"

text \<open>\<open>CityAMExtractor.generate_blog_post\<close>. It reads the clock twice.\<close>

definition generate_blog_post ::
  "env \<Rightarrow> extractor \<Rightarrow> feed_result option \<Rightarrow> pystr \<Rightarrow> pystr \<Rightarrow> world \<Rightarrow> pystr \<times> world"
where
  "generate_blog_post e self feed_data blog_name author_name w =
     (case feed_data of
        None \<Rightarrow> (no_articles_message, w)
      | Some fd \<Rightarrow>
          if articles fd = [] then (no_articles_message, w)
          else
            (let (t1, w1) = datetime_now e w;
                 today = strftime t1 (ascii ''%B %d, %Y'');
                 post = post_header today;
                 post = add_sections post 1 (articles fd);
                 (t2, w2) = datetime_now e w1;
                 post = post @ post_footer self blog_name author_name
                          (strftime t2 (ascii ''%Y-%m-%d %H:%M UTC''))
             in (post, w2)))"

subsection \<open>Saving\<close>

text \<open>
  \<open>CityAMExtractor.save_blog_post\<close>. \<open>if not filename\<close> holds for \<open>None\<close>
  and for the empty string.
\<close>

definition save_blog_post ::
  "env \<Rightarrow> extractor \<Rightarrow> pystr \<Rightarrow> pystr option \<Rightarrow> world \<Rightarrow> (py_exception + pystr) \<times> world"
where
  "save_blog_post e self content filename w =
     (let (filename, w1) =
            (if filename = None \<or> filename = Some [] then
               (let (t, w1) = datetime_now e w;
                    date_str = strftime t (ascii ''%Y-%m-%d'')
                in (ascii ''cityam_summary_'' @ date_str @ ascii ''.md'', w1))
             else (the filename, w));
          filepath = path_join (output_dir self) filename
      in case write_text e filepath content w1 of
           Inl ex \<Rightarrow> (Inl ex, w1)
         | Inr w2 \<Rightarrow> (Inr filepath, py_print (ascii ''Blog post saved to: '' @ filepath) w2))"

definition readme_content :: "pystr \<Rightarrow> pystr \<Rightarrow> pystr" where
  "readme_content date_str new_filename =
     ascii ''# Daily City A.M. Business News Summaries\<newline>'' @
     ascii ''\<newline>'' @
     ascii ''This repository automatically generates daily business news summaries from '' @
     ascii ''City A.M.'' @ [39] @ ascii ''s RSS feed.\<newline>'' @
     ascii ''\<newline>'' @
     ascii ''## Latest Summary\<newline>'' @
     [128240] @ ascii '' **['' @ date_str @ ascii '' Summary](summaries/'' @
     basename new_filename @ ascii '')**\<newline>'' @
     ascii ''\<newline>'' @
     ascii ''## About\<newline>'' @
     ascii ''- **Source**: [City A.M.](https://www.cityam.com) - London'' @ [39] @
     ascii ''s leading business newspaper\<newline>'' @
     ascii ''- **Update Frequency**: Daily at 8:00 AM UTC\<newline>'' @
     ascii ''- **Content**: Top 5 business stories with summaries and links to full articles\<newline>'' @
     ascii ''- **Legal**: All content properly attributed with links to original sources\<newline>'' @
     ascii ''\<newline>'' @
     ascii ''## Archive\<newline>'' @
     ascii ''All daily summaries are stored in the ['' @ [96] @ ascii ''summaries/'' @ [96] @
     ascii ''](summaries/) directory.\<newline>'' @
     ascii ''\<newline>'' @
     ascii ''## How It Works\<newline>'' @
     ascii ''This repository uses GitHub Actions to automatically:\<newline>'' @
     ascii ''1. Fetch the latest articles from City A.M.'' @ [39] @ ascii ''s RSS feed\<newline>'' @
     ascii ''2. Generate formatted summaries with proper attribution\<newline>'' @
     ascii ''3. Commit and push the new content daily\<newline>'' @
     ascii ''\<newline>'' @
     ascii ''---\<newline>'' @
     ascii ''*Automated by GitHub Actions | Content '' @ [169] @ ascii '' City A.M.*\<newline>''"

text \<open>\<open>CityAMExtractor.update_index\<close>.\<close>

definition update_index ::
  "env \<Rightarrow> pystr \<Rightarrow> world \<Rightarrow> (py_exception + unit) \<times> world"
where
  "update_index e new_filename w =
     (let index_path = ascii ''README.md'';
          (t, w1) = datetime_now e w;
          date_str = strftime t (ascii ''%Y-%m-%d'')
      in case write_text e index_path (readme_content date_str new_filename) w1 of
           Inl ex \<Rightarrow> (Inl ex, w1)
         | Inr w2 \<Rightarrow> (Inr (), py_print (ascii ''Updated '' @ index_path) w2))"

subsection \<open>The run\<close>

text \<open>
  How a run ends: the method returns, or \<open>sys.exit\<close> ends the process with a code.
  \<open>SystemExit\<close> is no \<open>Exception\<close>, so the handler of the run does not catch it.
\<close>

datatype run_outcome = Returned bool | SysExit int

text \<open>The handler \<open>except Exception as e\<close> of the run.\<close>

definition run_failed :: "py_exception \<Rightarrow> world \<Rightarrow> run_outcome \<times> world" where
  "run_failed ex w =
     (SysExit 1, py_print ([10060] @ ascii '' Error during extraction: '' @ exception_str ex) w)"

text \<open>\<open>CityAMExtractor.run_daily_extraction\<close>.\<close>

definition run_daily_extraction :: "env \<Rightarrow> extractor \<Rightarrow> world \<Rightarrow> run_outcome \<times> world" where
  "run_daily_extraction e self w =
     (let w = py_print (replicate 50 61) w;
          w = py_print (ascii ''City A.M. Daily Content Extraction'') w;
          w = py_print (replicate 50 61) w
      in case extract_articles e self (ascii ''news'') 5 w of
           (Inl ex, w1) \<Rightarrow> run_failed ex w1
         | (Inr None, w1) \<Rightarrow>
             (SysExit 1,
              py_print ([10060] @ ascii '' Failed to extract content from RSS feed'') w1)
         | (Inr (Some feed_data), w1) \<Rightarrow>
             (let (blog_content, w2) =
                    generate_blog_post e self (Some feed_data) (ascii ''Business News Blog'')
                      (ascii ''Automated Summary'') w1
              in case save_blog_post e self blog_content None w2 of
                   (Inl ex, w3) \<Rightarrow> run_failed ex w3
                 | (Inr filename, w3) \<Rightarrow>
                     (case update_index e filename w3 of
                        (Inl ex, w4) \<Rightarrow> run_failed ex w4
                      | (Inr u, w4) \<Rightarrow>
                          (Returned True,
                           py_print ([9989] @
                             ascii '' Daily extraction completed successfully!'') w4))))"

text \<open>\<open>main\<close>: the extractor is built, which makes the output directory, and run.\<close>

definition main :: "env \<Rightarrow> world \<Rightarrow> run_outcome \<times> world" where
  "main e w = (let (extractor, w1) = init w in run_daily_extraction e extractor w1)"

text \<open>The exit code of the process.\<close>

fun exit_code :: "run_outcome \<Rightarrow> int" where
  "exit_code (Returned b) = 0"
| "exit_code (SysExit n) = n"

section \<open>A test environment\<close>

text \<open>
  Concrete inputs for the examples below: an entry that has a title only, a feed of seven
  such entries, three entries of the library's table of named references, a clock that
  reads 5 November 2025, 08:00, a world with an empty file system, and the feed result of
  the first five of the seven entries.
\<close>

definition plain_entry :: "pystr \<Rightarrow> entry" where
  "plain_entry t =
     \<lparr>entry_title = Some t, entry_summary = None, entry_description = None, entry_link = None,
      entry_published = None, entry_author = None, entry_tags = None\<rparr>"

definition example_entries :: "entry list" where
  "example_entries = map (\<lambda>t. plain_entry (ascii t))
     [''Story 1'', ''Story 2'', ''Story 3'', ''Story 4'', ''Story 5'', ''Story 6'', ''Story 7'']"

definition example_feed :: "entry list \<Rightarrow> parsed_feed" where
  "example_feed es =
     \<lparr>bozo = False, bozo_exception = LibraryError [] [], entries = es,
      feed = \<lparr>meta_title = Some (ascii ''City A.M.''), meta_description = None,
              meta_updated = None\<rparr>\<rparr>"

definition example_table :: entity_table where
  "example_table = map_of [(ascii ''amp;'', [38]), (ascii ''lt;'', [60]), (ascii ''gt;'', [62])]"

definition example_env :: "parse_outcome \<Rightarrow> env" where
  "example_env outcome =
     \<lparr>html5 = example_table,
      feedparser_parse = (\<lambda>url. outcome),
      clock = (\<lambda>n. \<lparr>year = 2025, month = 11, day = 5, hour = 8, minute = 0\<rparr>),
      open_error = (\<lambda>path. ascii ''[Errno 2] No such file or directory: '' @ path)\<rparr>"

definition example_world :: world where
  "example_world = \<lparr>dirs = {}, files = Map.empty, stdout = [], requests = [], ticks = 0\<rparr>"


section \<open>Predicates on text\<close>








text \<open>
  The lines of a text, split at the line feeds, and those of them that are numbered
  headings: \<open>## \<close> followed by a digit.
\<close>

fun lines_from :: "pystr \<Rightarrow> pystr \<Rightarrow> pystr list" where
  "lines_from cur [] = [cur]"
| "lines_from cur (c # cs) =
     (if c = 10 then cur # lines_from [] cs else lines_from (cur @ [c]) cs)"



section \<open>The configuration of the extractor\<close>

lemma init_fields:
  "rss_feeds (fst (init w)) =
     [(ascii ''news'', ascii ''https://www.cityam.com/news/rss''),
      (ascii ''business'', ascii ''https://www.cityam.com/news/feed'')]"
  "base_url (fst (init w)) = ascii ''https://www.cityam.com''"
  "output_dir (fst (init w)) = ascii ''summaries''"
  "files (snd (init w)) = files w"
  "stdout (snd (init w)) = stdout w"
  "requests (snd (init w)) = requests w"
  "ticks (snd (init w)) = ticks w"
  by (simp_all add: init_def Let_def ensure_output_dir_def makedirs_def)

section \<open>Properties of the text sanitizer\<close>


























text \<open>
  The pattern \<open><.*?>\<close> does not match across a line feed, so a tag that spans two
  lines is kept; collapsing the whitespace then puts it on one line.
\<close>

lemma clean_html_tag_across_lines:
  "clean_html t (ascii ''<a\<newline>href=x>link</a>'') = ascii ''<a href=x>link''"
  by (simp add: clean_html_def ascii_def unescape_def py_split_def isspace_def)

section \<open>Properties of the article selector\<close>

lemma clean_html_no_title: "clean_html t (ascii ''No title'') = ascii ''No title''"
  by (simp add: clean_html_def ascii_def unescape_def py_split_def isspace_def)

lemma append_articles_map:
  "append_articles t arts es = arts @ map (make_article t) es"
  by (induction es arbitrary: arts) simp_all

text \<open>
  Claim C3. For every article, with \<open>s\<close> the sanitized summary of its entry: when
  \<open>s\<close> has at most 300 characters the stored summary is \<open>s\<close> unchanged, of the
  same length; when it has more, the stored summary is the first 297 characters of
  \<open>s\<close> followed by the three characters "...", of length exactly 300.
\<close>

theorem summary_limit:
  "summary (make_article t e) =
     (let s = clean_html t (get_default (entry_summary e) (get_default (entry_description e) []))
      in if length s \<le> 300 then s else take 297 s @ ascii ''...'') \<and>
   length (summary (make_article t e)) =
     (let s = clean_html t (get_default (entry_summary e) (get_default (entry_description e) []))
      in if length s \<le> 300 then length s else 300)"
  by (simp add: make_article_def limit_summary_def Let_def ascii_def)

text \<open>
  Claim C9. In the article built from an entry, a missing title becomes "No title", a
  missing author "City A.M.", a missing link and a missing publication date the empty
  string, and missing tags the empty list of categories. A title that is present is kept
  sanitized; an author, a link and a date that are present are kept as they are; tags
  that are present give their terms, in order.
\<close>

theorem make_article_defaults:
  "title (make_article t e) =
     (case entry_title e of None \<Rightarrow> ascii ''No title'' | Some x \<Rightarrow> clean_html t x) \<and>
   author (make_article t e) =
     (case entry_author e of None \<Rightarrow> ascii ''City A.M.'' | Some x \<Rightarrow> x) \<and>
   link (make_article t e) = (case entry_link e of None \<Rightarrow> [] | Some x \<Rightarrow> x) \<and>
   published (make_article t e) = (case entry_published e of None \<Rightarrow> [] | Some x \<Rightarrow> x) \<and>
   categories (make_article t e) =
     (case entry_tags e of None \<Rightarrow> [] | Some ts \<Rightarrow> map tag_term ts)"
  by (simp add: make_article_def Let_def clean_html_no_title split: option.splits)



section \<open>Properties of the feed fetcher\<close>

text \<open>
  Claim C7, as the code has it. When the label is not a key of the feed mapping,
  \<open>extract_articles\<close> raises the built-in \<open>ValueError\<close> with the message
  "Unknown feed: " followed by the label, and the world is unchanged: nothing was printed
  and no URL was requested. For a label mapped to a non-empty URL no exception leaves the
  method, and that URL is requested.
\<close>

theorem unknown_feed_value_error:
  "(map_of (rss_feeds self) feed_name = None \<longrightarrow>
      extract_articles e self feed_name n w =
        (Inl (ValueError (ascii ''Unknown feed: '' @ feed_name)), w)) \<and>
   (\<forall>url. map_of (rss_feeds self) feed_name = Some url \<and> url \<noteq> [] \<longrightarrow>
      \<not> isl (fst (extract_articles e self feed_name n w)) \<and>
      requests (snd (extract_articles e self feed_name n w)) = requests w @ [url])"
  by (auto simp: extract_articles_def parse_url_def py_print_def Let_def
      split: parse_outcome.splits)

theorem unknown_feed_value_error_witness:
  "map_of (rss_feeds (fst (init example_world))) (ascii ''sports'') = None \<and>
   extract_articles (example_env (Parsed (example_feed example_entries)))
     (fst (init example_world)) (ascii ''sports'') 5 example_world =
     (Inl (ValueError (ascii ''Unknown feed: sports'')), example_world) \<and>
   map_of (rss_feeds (fst (init example_world))) (ascii ''news'') =
     Some (ascii ''https://www.cityam.com/news/rss'') \<and>
   \<not> isl (fst (extract_articles (example_env (Parsed (example_feed example_entries)))
     (fst (init example_world)) (ascii ''news'') 5 example_world)) \<and>
   requests (snd (extract_articles (example_env (Parsed (example_feed example_entries)))
     (fst (init example_world)) (ascii ''news'') 5 example_world)) =
     [ascii ''https://www.cityam.com/news/rss'']"
  using unknown_feed_value_error [of "fst (init example_world)" "ascii ''sports''"
      "example_env (Parsed (example_feed example_entries))" 5 example_world]
    unknown_feed_value_error [of "fst (init example_world)" "ascii ''news''"
      "example_env (Parsed (example_feed example_entries))" 5 example_world]
  by (simp add: init_def Let_def ascii_def example_world_def)

text \<open>
  Claim C7 as stated fails on the class of the exception: for the unknown label "sports"
  the exception raised is a \<open>ValueError\<close>, not an \<open>UnknownSourceError\<close>, a class the
  program does not have.
\<close>

theorem unknown_feed_counterexample:
  "fst (extract_articles (example_env (Parsed (example_feed example_entries)))
     (fst (init example_world)) (ascii ''sports'') 5 example_world) =
     Inl (ValueError (ascii ''Unknown feed: sports'')) \<and>
   exception_class (ValueError (ascii ''Unknown feed: sports'')) = ''ValueError'' \<and>
   exception_class (ValueError (ascii ''Unknown feed: sports'')) \<noteq> ''UnknownSourceError''"
  by (simp add: extract_articles_def init_def Let_def ascii_def)

text \<open>
  Claim C8. When \<open>feedparser.parse\<close> raises an exception for the URL of a known
  source, \<open>extract_articles\<close> catches it: it returns \<open>None\<close> instead of raising,
  and has printed the line "Error extracting from feed", the URL and the message of the
  exception, after the line that announced the request.
\<close>

theorem parse_exception_caught:
  assumes "map_of (rss_feeds self) feed_name = Some url" and "url \<noteq> []"
    and "feedparser_parse e url = Raises ex"
  shows "extract_articles e self feed_name n w =
     (Inr None,
      w\<lparr>stdout := stdout w @
           [ascii ''Fetching content from: '' @ url,
            ascii ''Error extracting from feed '' @ url @ ascii '': '' @ exception_str ex],
        requests := requests w @ [url]\<rparr>)"
  using assms by (simp add: extract_articles_def parse_url_def py_print_def Let_def)

theorem parse_exception_caught_witness:
  "map_of (rss_feeds (fst (init example_world))) (ascii ''news'') =
     Some (ascii ''https://www.cityam.com/news/rss'') \<and>
   extract_articles (example_env (Raises (LibraryError ''URLError'' (ascii ''timed out''))))
     (fst (init example_world)) (ascii ''news'') 5 example_world =
     (Inr None,
      example_world\<lparr>stdout :=
          [ascii ''Fetching content from: https://www.cityam.com/news/rss'',
           ascii ''Error extracting from feed https://www.cityam.com/news/rss: timed out''],
        requests := [ascii ''https://www.cityam.com/news/rss'']\<rparr>)"
  using parse_exception_caught [of "fst (init example_world)" "ascii ''news''"
      "ascii ''https://www.cityam.com/news/rss''"
      "example_env (Raises (LibraryError ''URLError'' (ascii ''timed out'')))"
      "LibraryError ''URLError'' (ascii ''timed out'')" 5 example_world]
  by (simp add: init_def Let_def ascii_def example_world_def example_env_def)

section \<open>Properties of the document renderer\<close>

text \<open>
  Claim C10. Given an absent feed result (\<open>None\<close>), the renderer returns exactly the
  string "No articles available for summary." and raises nothing, as it does for a feed
  result whose list of articles is empty: the two inputs give the same output, and
  neither reads the clock or changes the world.
\<close>

theorem generate_blog_post_absent:
  "generate_blog_post e self None blog_name author_name w =
     (ascii ''No articles available for summary.'', w) \<and>
   generate_blog_post e self (Some (fd\<lparr>articles := []\<rparr>)) blog_name author_name w =
     generate_blog_post e self None blog_name author_name w"
  by (simp add: generate_blog_post_def no_articles_message_def)


lemma lines_from_append:
  "10 \<notin> set xs \<Longrightarrow> lines_from cur (xs @ ys) = lines_from (cur @ xs) ys"
  by (induction xs arbitrary: cur) auto

lemma lines_from_line:
  "10 \<notin> set l \<Longrightarrow> lines_from cur (l @ 10 # rest) = (cur @ l) # lines_from [] rest"
  by (simp add: lines_from_append)






















section \<open>Properties of saving and of the run\<close>

lemma strftime_date:
  "strftime t (ascii ''%Y-%m-%d'') =
     zfill 4 (year t) @ ascii ''-'' @ zfill 2 (month t) @ ascii ''-'' @ zfill 2 (day t)"
  by (simp add: ascii_def directive_def)

lemma extract_articles_frame:
  "files (snd (extract_articles e self feed_name n w)) = files w"
  "dirs (snd (extract_articles e self feed_name n w)) = dirs w"
  "ticks (snd (extract_articles e self feed_name n w)) = ticks w"
  by (simp_all add: extract_articles_def parse_url_def py_print_def Let_def
      split: option.splits parse_outcome.splits)

lemma extract_articles_nonempty:
  assumes "fst (extract_articles e self feed_name n w) = Inr (Some fd)" and "0 < n"
  shows "articles fd \<noteq> []"
  using assms
  by (auto simp: extract_articles_def parse_url_def Let_def select_articles_def slice_to_def
      append_articles_map split: option.splits parse_outcome.splits if_splits)

lemma generate_blog_post_frame:
  "files (snd (generate_blog_post e self fd b a w)) = files w"
  "dirs (snd (generate_blog_post e self fd b a w)) = dirs w"
  by (simp_all add: generate_blog_post_def datetime_now_def Let_def split: option.splits)

lemma generate_blog_post_ticks:
  "articles fd \<noteq> [] \<Longrightarrow>
     ticks (snd (generate_blog_post e self (Some fd) b a w)) = Suc (Suc (ticks w))"
  by (simp add: generate_blog_post_def datetime_now_def Let_def)

lemma save_blog_post_result:
  assumes "save_blog_post e self content None w = (Inr p, w')"
  shows "p = path_join (output_dir self)
           (ascii ''cityam_summary_'' @ strftime (clock e (ticks w)) (ascii ''%Y-%m-%d'') @
            ascii ''.md'')"
    and "files w' = (files w)(p \<mapsto> content)"
  using assms
  by (auto simp: save_blog_post_def datetime_now_def Let_def write_text_def
      py_print_def split: if_splits sum.splits)

lemma update_index_files:
  assumes "update_index e name w = (Inr u, w')"
  shows "files w' = (files w)(ascii ''README.md'' \<mapsto>
           readme_content (strftime (clock e (ticks w)) (ascii ''%Y-%m-%d'')) name)"
  using assms
  by (auto simp: update_index_def datetime_now_def Let_def write_text_def
      py_print_def split: if_splits sum.splits)

lemma summaries_path:
  "path_join (ascii ''summaries'') (ascii ''cityam_summary_'' @ d @ ascii ''.md'') =
     ascii ''summaries/cityam_summary_'' @ d @ ascii ''.md''"
  by (simp add: path_join_def ascii_def)

lemma summaries_path_not_readme:
  "ascii ''summaries/cityam_summary_'' @ d @ ascii ''.md'' \<noteq> ascii ''README.md''"
  by (simp add: ascii_def)

lemma py_print_frame:
  "files (py_print l w) = files w" "dirs (py_print l w) = dirs w"
  "ticks (py_print l w) = ticks w"
  by (simp_all add: py_print_def)

lemma main_success:
  assumes "fst (main e w) = Returned True"
  shows "\<exists>content index. files (snd (main e w)) =
           (files w)
             (ascii ''summaries/cityam_summary_'' @
              strftime (clock e (Suc (Suc (ticks w)))) (ascii ''%Y-%m-%d'') @ ascii ''.md''
                \<mapsto> content,
              ascii ''README.md'' \<mapsto> index)"
proof -
  define self where "self = fst (init w)"
  define w0 where "w0 = py_print (replicate 50 61)
    (py_print (ascii ''City A.M. Daily Content Extraction'')
      (py_print (replicate 50 61) (snd (init w))))"
  have w0: "files w0 = files w" "ticks w0 = ticks w"
    by (simp_all add: w0_def py_print_frame init_fields)
  have run: "main e w = run_daily_extraction e self (snd (init w))"
    by (simp add: main_def self_def split_beta)
  obtain r w1 where ex: "extract_articles e self (ascii ''news'') 5 w0 = (r, w1)"
    by (cases "extract_articles e self (ascii ''news'') 5 w0")
  from extract_articles_frame [of e self "ascii ''news''" 5 w0] ex w0
  have w1: "files w1 = files w" "ticks w1 = ticks w" by simp_all
  from assms ex obtain fd where r: "r = Inr (Some fd)"
    unfolding run run_daily_extraction_def w0_def [symmetric] Let_def
    by (cases r; cases "projr r") (auto simp: run_failed_def)
  from extract_articles_nonempty [of e self "ascii ''news''" 5 w0 fd] ex r
  have ne: "articles fd \<noteq> []" by simp
  obtain blog w2 where gen: "generate_blog_post e self (Some fd) (ascii ''Business News Blog'')
      (ascii ''Automated Summary'') w1 = (blog, w2)"
    by (cases "generate_blog_post e self (Some fd) (ascii ''Business News Blog'')
      (ascii ''Automated Summary'') w1")
  from gen have "snd (generate_blog_post e self (Some fd) (ascii ''Business News Blog'')
      (ascii ''Automated Summary'') w1) = w2" by simp
  with generate_blog_post_frame(1) [of e self "Some fd" "ascii ''Business News Blog''"
      "ascii ''Automated Summary''" w1]
    generate_blog_post_ticks [OF ne, of e self "ascii ''Business News Blog''"
      "ascii ''Automated Summary''" w1] w1
  have w2: "files w2 = files w" "ticks w2 = Suc (Suc (ticks w))" by simp_all
  obtain s w3 where sv: "save_blog_post e self blog None w2 = (s, w3)"
    by (cases "save_blog_post e self blog None w2")
  from assms ex r gen sv obtain p where s: "s = Inr p"
    unfolding run run_daily_extraction_def w0_def [symmetric] Let_def
    by (cases s) (auto simp: run_failed_def)
  obtain u w4 where up: "update_index e p w3 = (u, w4)"
    by (cases "update_index e p w3")
  from assms ex r gen sv s up obtain x where u: "u = Inr x"
    unfolding run run_daily_extraction_def w0_def [symmetric] Let_def
    by (cases u) (auto simp: run_failed_def)
  from ex r gen sv s up u have fin: "snd (main e w) =
      py_print ([9989] @ ascii '' Daily extraction completed successfully!'') w4"
    unfolding run run_daily_extraction_def w0_def [symmetric] Let_def by simp
  let ?p = "ascii ''summaries/cityam_summary_'' @
            strftime (clock e (Suc (Suc (ticks w)))) (ascii ''%Y-%m-%d'') @ ascii ''.md''"
  from save_blog_post_result [OF sv [unfolded s]] w2
  have p: "p = ?p" and w3: "files w3 = (files w)(p \<mapsto> blog)"
    by (simp_all add: self_def init_fields summaries_path)
  from update_index_files [OF up [unfolded u]] w3 p
  have "files w4 = (files w)(?p \<mapsto> blog, ascii ''README.md'' \<mapsto>
      readme_content (strftime (clock e (ticks w3)) (ascii ''%Y-%m-%d'')) p)"
    by simp
  then have "files (snd (main e w)) = (files w)(?p \<mapsto> blog, ascii ''README.md'' \<mapsto>
      readme_content (strftime (clock e (ticks w3)) (ascii ''%Y-%m-%d'')) p)"
    by (simp add: fin py_print_frame)
  then show ?thesis by blast
qed

lemma example_run:
  "fst (main (example_env (Parsed (example_feed example_entries))) example_world) = Returned True"
  by (simp add: main_def run_daily_extraction_def init_def ensure_output_dir_def path_exists_def
      makedirs_def example_world_def example_env_def example_feed_def example_entries_def
      extract_articles_def parse_url_def py_print_def Let_def generate_blog_post_def
      datetime_now_def save_blog_post_def update_index_def write_text_def path_join_def
      dirname_def select_articles_def slice_to_def append_articles_map split_beta
      ascii_def directive_def zfill_def str_nat.simps)



lemma news_url:
  "map_of (rss_feeds (fst (init w))) (ascii ''news'') = Some (ascii ''https://www.cityam.com/news/rss'')"
  by (simp add: init_fields ascii_def)

lemma example_date:
  "strftime (clock (example_env outcome) n) (ascii ''%Y-%m-%d'') = ascii ''2025-11-05''"
  by (simp add: example_env_def ascii_def directive_def zfill_def str_nat.simps)

lemma example_path:
  "ascii ''summaries/cityam_summary_'' @ ascii ''2025-11-05'' @ ascii ''.md'' =
     ascii ''summaries/cityam_summary_2025-11-05.md''"
  by (simp add: ascii_def)

lemma example_paths_differ:
  "ascii ''summaries/cityam_summary_2025-11-05.md'' \<noteq> ascii ''README.md''"
  "ascii ''summaries/news_summary_2025-11-05.md'' \<noteq> ascii ''README.md''"
  "ascii ''summaries/news_summary_2025-11-05.md'' \<noteq>
     ascii ''summaries/cityam_summary_2025-11-05.md''"
  by (simp_all add: ascii_def)

text \<open>
  Claim C6. When the parsed feed of a known source has no entries, \<open>extract_articles\<close>
  returns \<open>None\<close>, not a feed result. When that happens for the source "news" of the
  run, the process ends by \<open>sys.exit(1)\<close>, with exit code 1, and the files are the
  files from before the run: no document and no index were written.
\<close>

theorem zero_entries_no_data:
  "(map_of (rss_feeds self) feed_name = Some url \<and> url \<noteq> [] \<and>
    feedparser_parse e url = Parsed f \<and> entries f = [] \<longrightarrow>
      fst (extract_articles e self feed_name n w) = Inr None) \<and>
   (feedparser_parse e (ascii ''https://www.cityam.com/news/rss'') = Parsed f \<and> entries f = [] \<longrightarrow>
      fst (main e w) = SysExit 1 \<and> exit_code (fst (main e w)) = 1 \<and>
      files (snd (main e w)) = files w)"
proof -
  have a: "fst (extract_articles e self feed_name n w) = Inr None"
    if "map_of (rss_feeds self) feed_name = Some url" "url \<noteq> []"
      "feedparser_parse e url = Parsed f" "entries f = []" for self feed_name url n w
    using that by (simp add: extract_articles_def parse_url_def Let_def)
  show ?thesis
  proof (intro conjI impI)
    assume "map_of (rss_feeds self) feed_name = Some url \<and> url \<noteq> [] \<and>
      feedparser_parse e url = Parsed f \<and> entries f = []"
    then show "fst (extract_articles e self feed_name n w) = Inr None" by (simp add: a)
  next
    assume h: "feedparser_parse e (ascii ''https://www.cityam.com/news/rss'') = Parsed f \<and>
      entries f = []"
    define w0 where "w0 = py_print (replicate 50 61)
      (py_print (ascii ''City A.M. Daily Content Extraction'')
        (py_print (replicate 50 61) (snd (init w))))"
    obtain r w1 where r: "extract_articles e (fst (init w)) (ascii ''news'') 5 w0 = (r, w1)"
      by (cases "extract_articles e (fst (init w)) (ascii ''news'') 5 w0")
    have "ascii ''https://www.cityam.com/news/rss'' \<noteq> []" by (simp add: ascii_def)
    with h have "fst (extract_articles e (fst (init w)) (ascii ''news'') 5 w0) = Inr None"
      by (intro a [OF news_url]) simp_all
    with r have r1: "r = Inr None" by simp
    from extract_articles_frame(1) [of e "fst (init w)" "ascii ''news''" 5 w0] r
    have w1: "files w1 = files w"
      by (simp add: w0_def py_print_frame init_fields)
    from r r1 have m: "main e w =
        (SysExit 1, py_print ([10060] @ ascii '' Failed to extract content from RSS feed'') w1)"
      by (simp add: main_def run_daily_extraction_def Let_def w0_def split_beta)
    with w1 show "fst (main e w) = SysExit 1" "exit_code (fst (main e w)) = 1"
      "files (snd (main e w)) = files w"
      by (simp_all add: py_print_frame)
  qed
qed

theorem zero_entries_no_data_witness:
  "feedparser_parse (example_env (Parsed (example_feed [])))
     (ascii ''https://www.cityam.com/news/rss'') = Parsed (example_feed []) \<and>
   entries (example_feed []) = [] \<and>
   fst (extract_articles (example_env (Parsed (example_feed []))) (fst (init example_world))
     (ascii ''news'') 5 example_world) = Inr None \<and>
   fst (main (example_env (Parsed (example_feed []))) example_world) = SysExit 1 \<and>
   exit_code (fst (main (example_env (Parsed (example_feed []))) example_world)) = 1 \<and>
   files (snd (main (example_env (Parsed (example_feed []))) example_world)) = Map.empty"
proof -
  let ?e = "example_env (Parsed (example_feed []))"
  let ?url = "ascii ''https://www.cityam.com/news/rss''"
  have p: "feedparser_parse ?e ?url = Parsed (example_feed [])"
    by (simp add: example_env_def)
  have n: "entries (example_feed []) = []"
    by (simp add: example_feed_def)
  have u: "?url \<noteq> []"
    by (simp add: ascii_def)
  note z = zero_entries_no_data [where self = "fst (init example_world)"
      and feed_name = "ascii ''news''" and url = ?url and e = ?e and f = "example_feed []"
      and n = 5 and w = example_world]
  from z [THEN conjunct1] news_url [of example_world] u p n
  have "fst (extract_articles ?e (fst (init example_world)) (ascii ''news'') 5 example_world) =
      Inr None"
    by blast
  moreover from z [THEN conjunct2] p n
  have "fst (main ?e example_world) = SysExit 1 \<and>
      exit_code (fst (main ?e example_world)) = 1 \<and>
      files (snd (main ?e example_world)) = files example_world"
    by blast
  moreover have "files example_world = Map.empty"
    by (simp add: example_world_def)
  ultimately show ?thesis using p n by simp
qed

text \<open>
  Claim C1, as the code has it. When \<open>save_blog_post\<close> is called without a file
  name and the write succeeds, the path returned is the output directory joined with
  \<open>cityam_summary_YYYY-MM-DD.md\<close>, the date being the clock reading taken by the call,
  and the file at that path holds the content; no other file changes. The prefix
  \<open>cityam\<close> is fixed: the method does not receive the source label. A run that
  reports success has written exactly two files: \<open>summaries/cityam_summary_\<close>, the
  date and \<open>.md\<close>, and \<open>README.md\<close>.
\<close>

theorem default_file_name:
  "strftime t (ascii ''%Y-%m-%d'') =
     zfill 4 (year t) @ ascii ''-'' @ zfill 2 (month t) @ ascii ''-'' @ zfill 2 (day t) \<and>
   (save_blog_post e self content None w = (Inr p, w') \<longrightarrow>
      p = path_join (output_dir self)
            (ascii ''cityam_summary_'' @ strftime (clock e (ticks w)) (ascii ''%Y-%m-%d'') @
             ascii ''.md'') \<and>
      files w' = (files w)(p \<mapsto> content)) \<and>
   (fst (main e w) = Returned True \<longrightarrow>
      (\<exists>content index. files (snd (main e w)) =
         (files w)
           (ascii ''summaries/cityam_summary_'' @
            strftime (clock e (Suc (Suc (ticks w)))) (ascii ''%Y-%m-%d'') @ ascii ''.md''
              \<mapsto> content,
            ascii ''README.md'' \<mapsto> index)))"
  using strftime_date save_blog_post_result main_success by blast

theorem default_file_name_witness:
  "fst (save_blog_post (example_env (Parsed (example_feed example_entries)))
     (fst (init example_world)) (ascii ''text'') None (snd (init example_world))) =
     Inr (ascii ''summaries/cityam_summary_2025-11-05.md'') \<and>
   files (snd (save_blog_post (example_env (Parsed (example_feed example_entries)))
     (fst (init example_world)) (ascii ''text'') None (snd (init example_world)))) =
     [ascii ''summaries/cityam_summary_2025-11-05.md'' \<mapsto> ascii ''text''] \<and>
   fst (main (example_env (Parsed (example_feed example_entries))) example_world) =
     Returned True \<and>
   files (snd (main (example_env (Parsed (example_feed example_entries))) example_world))
     (ascii ''summaries/cityam_summary_2025-11-05.md'') \<noteq> None"
proof -
  let ?e = "example_env (Parsed (example_feed example_entries))"
  let ?self = "fst (init example_world)"
  let ?w = "snd (init example_world)"
  let ?save = "save_blog_post ?e ?self (ascii ''text'') None ?w"
  have s: "fst ?save = Inr (ascii ''summaries/cityam_summary_2025-11-05.md'')"
    by (simp add: save_blog_post_def datetime_now_def Let_def init_def
        ensure_output_dir_def path_exists_def makedirs_def example_world_def example_env_def
        write_text_def path_join_def dirname_def split_beta ascii_def directive_def zfill_def
        str_nat.simps)
  then have "?save = (Inr (ascii ''summaries/cityam_summary_2025-11-05.md''), snd ?save)"
    by (metis prod.collapse)
  from default_file_name [THEN conjunct2, THEN conjunct1, rule_format, OF this]
  have f: "files (snd ?save) =
      [ascii ''summaries/cityam_summary_2025-11-05.md'' \<mapsto> ascii ''text'']"
    by (simp add: init_fields example_world_def)
  from default_file_name [THEN conjunct2, THEN conjunct2, rule_format, OF example_run]
  obtain content index where "files (snd (main ?e example_world)) =
      (files example_world)(ascii ''summaries/cityam_summary_2025-11-05.md'' \<mapsto> content,
         ascii ''README.md'' \<mapsto> index)"
    unfolding example_date example_path by blast
  then have "files (snd (main ?e example_world))
     (ascii ''summaries/cityam_summary_2025-11-05.md'') \<noteq> None"
    by (simp add: example_paths_differ)
  with s f example_run show ?thesis by simp
qed

text \<open>
  Claim C1 as stated fails: a successful run for the source "news" on 5 November 2025,
  started on an empty file system, leaves the files
  \<open>summaries/cityam_summary_2025-11-05.md\<close> and \<open>README.md\<close>, and no file named
  \<open>summaries/news_summary_2025-11-05.md\<close>.
\<close>

theorem news_summary_counterexample:
  "fst (main (example_env (Parsed (example_feed example_entries))) example_world) =
     Returned True \<and>
   files (snd (main (example_env (Parsed (example_feed example_entries))) example_world))
     (ascii ''summaries/news_summary_2025-11-05.md'') = None \<and>
   dom (files (snd (main (example_env (Parsed (example_feed example_entries))) example_world))) =
     {ascii ''summaries/cityam_summary_2025-11-05.md'', ascii ''README.md''}"
proof -
  from main_success [OF example_run] obtain content index where
    "files (snd (main (example_env (Parsed (example_feed example_entries))) example_world)) =
       (files example_world)(ascii ''summaries/cityam_summary_2025-11-05.md'' \<mapsto> content,
          ascii ''README.md'' \<mapsto> index)"
    unfolding example_date example_path by blast
  then have "files (snd (main (example_env (Parsed (example_feed example_entries)))
      example_world)) =
       [ascii ''summaries/cityam_summary_2025-11-05.md'' \<mapsto> content,
        ascii ''README.md'' \<mapsto> index]"
    by (simp add: example_world_def)
  then show ?thesis using example_run by (simp add: example_paths_differ insert_commute)
qed


end
